theory Spec2Isabelle
  imports Main "HOL-Library.AList" "HOL-Library.Sublist"
begin

section \<open>Python values, dictionaries and exceptions\<close>

text \<open>
  The integration is Python. A \<open>dict\<close> keeps its keys distinct and in insertion order, so it
  is an association list: \<open>k in d\<close> is \<open>map_of d k \<noteq> None\<close>, \<open>d[k] = v\<close> is
  \<open>AList.update k v d\<close> (the value is replaced in place, a new key goes to the end) and
  \<open>d.pop(k)\<close> is \<open>AList.delete k d\<close>.

  The values of a device status are the protocol's scalars: integers, flags and short
  strings.
\<close>

datatype scalar = SInt int | SBool bool | SStr string

type_synonym status = "(string \<times> scalar) list"

datatype exn =
    ConfigEntryNotReady
  | KeyError
  | ValueError
  | TypeError
  | ZeroDivisionError
  | TimeoutError
  | OverflowError
  | RuntimeError
  | OtherError string

definition has_key :: "('k \<times> 'v) list \<Rightarrow> 'k \<Rightarrow> bool" where
  "has_key d k = (map_of d k \<noteq> None)"

text \<open>\<open>d.update(e)\<close>: the items of \<open>e\<close> are assigned to \<open>d\<close> one after the other.\<close>

fun dict_update :: "('k \<times> 'v) list \<Rightarrow> ('k \<times> 'v) list \<Rightarrow> ('k \<times> 'v) list" where
  "dict_update d [] = d"
| "dict_update d ((k, v) # e) = dict_update (AList.update k v d) e"

text \<open>\<open>status or {}\<close> for a status that may be \<open>None\<close>.\<close>

definition or_empty :: "status option \<Rightarrow> status" where
  "or_empty st = (case st of None \<Rightarrow> [] | Some d \<Rightarrow> d)"

text \<open>
  Python's \<open>==\<close> on status values: a flag equals the integer 0 or 1, a string equals only
  the same string.
\<close>

fun py_eq :: "scalar \<Rightarrow> scalar \<Rightarrow> bool" where
  "py_eq (SInt i) (SInt j) = (i = j)"
| "py_eq (SBool a) (SBool b) = (a = b)"
| "py_eq (SInt i) (SBool b) = (i = (if b then 1 else 0))"
| "py_eq (SBool b) (SInt i) = (i = (if b then 1 else 0))"
| "py_eq (SStr s) (SStr t) = (s = t)"
| "py_eq _ _ = False"

section \<open>services.py: registration of the integration's services\<close>

definition SERVICE_FILTER_RESET :: string where
  "SERVICE_FILTER_RESET = ''filter_reset''"

definition SERVICE_CALIBRATE_SENSORS :: string where
  "SERVICE_CALIBRATE_SENSORS = ''calibrate_sensors''"

definition SERVICE_SET_DISPLAY_BRIGHTNESS :: string where
  "SERVICE_SET_DISPLAY_BRIGHTNESS = ''set_display_brightness''"

definition SERVICE_SCHEDULE_MAINTENANCE :: string where
  "SERVICE_SCHEDULE_MAINTENANCE = ''schedule_maintenance''"

definition SERVICE_SET_CHILD_LOCK :: string where
  "SERVICE_SET_CHILD_LOCK = ''set_child_lock''"

definition SERVICE_SET_TIMER :: string where
  "SERVICE_SET_TIMER = ''set_timer''"

definition SERVICE_RESET_DEVICE :: string where
  "SERVICE_RESET_DEVICE = ''reset_device''"

text \<open>
  The keys of the \<open>services\<close> dictionary of \<open>async_setup_services\<close>, in its order; the list
  \<open>services\<close> of \<open>async_unload_services\<close> is the same one.
\<close>

definition service_names :: "string list" where
  "service_names =
     [SERVICE_FILTER_RESET, SERVICE_CALIBRATE_SENSORS, SERVICE_SET_DISPLAY_BRIGHTNESS,
      SERVICE_SCHEDULE_MAINTENANCE, SERVICE_SET_CHILD_LOCK, SERVICE_SET_TIMER,
      SERVICE_RESET_DEVICE]"

text \<open>
  The handlers are closures defined inside \<open>async_setup_services\<close>: every call of it makes
  new ones. \<open>Handler n g\<close> is the handler of service \<open>n\<close> made by call number \<open>g\<close>.

  Home Assistant's service registry \<open>hass.services\<close> is a dictionary from (domain, service)
  to the registered handler. \<open>async_register\<close> belongs to Home Assistant; the source wraps
  it in \<open>try/except Exception\<close>, so whether it accepts a service is a parameter
  \<open>accepts domain service\<close> of the model.
\<close>

datatype handler = Handler string nat

type_synonym service_registry = "((string \<times> string) \<times> handler) list"

definition has_service :: "service_registry \<Rightarrow> string \<Rightarrow> string \<Rightarrow> bool" where
  "has_service reg domain service = has_key reg (domain, service)"

definition async_register ::
  "(string \<Rightarrow> string \<Rightarrow> bool) \<Rightarrow> service_registry \<Rightarrow> string \<Rightarrow> string \<Rightarrow> handler
     \<Rightarrow> exn + service_registry" where
  "async_register accepts reg domain service h =
     (if accepts domain service then Inr (AList.update (domain, service) h reg)
      else Inl (OtherError service))"

definition async_remove :: "service_registry \<Rightarrow> string \<Rightarrow> string \<Rightarrow> service_registry" where
  "async_remove reg domain service = AList.delete (domain, service) reg"

text \<open>The loop \<open>for service_name, (handler, schema) in services.items()\<close>.\<close>

fun register_services ::
  "(string \<Rightarrow> string \<Rightarrow> bool) \<Rightarrow> string \<Rightarrow> nat \<Rightarrow> string list \<Rightarrow> service_registry
     \<Rightarrow> service_registry" where
  "register_services accepts domain g [] reg = reg"
| "register_services accepts domain g (n # ns) reg =
     register_services accepts domain g ns
       (if \<not> has_service reg domain n then
          (case async_register accepts reg domain n (Handler n g) of
             Inr reg' \<Rightarrow> reg'
           | Inl ex \<Rightarrow> reg)
        else reg)"

definition async_setup_services ::
  "(string \<Rightarrow> string \<Rightarrow> bool) \<Rightarrow> string \<Rightarrow> nat \<Rightarrow> service_registry \<Rightarrow> service_registry" where
  "async_setup_services accepts domain g reg =
     register_services accepts domain g service_names reg"

text \<open>The loop \<open>for service_name in services\<close> of \<open>async_unload_services\<close>.\<close>

fun remove_services :: "string \<Rightarrow> string list \<Rightarrow> service_registry \<Rightarrow> service_registry" where
  "remove_services domain [] reg = reg"
| "remove_services domain (n # ns) reg =
     remove_services domain ns
       (if has_service reg domain n then async_remove reg domain n else reg)"

definition async_unload_services :: "string \<Rightarrow> service_registry \<Rightarrow> service_registry" where
  "async_unload_services domain reg = remove_services domain service_names reg"

section \<open>The objects of the integration\<close>

text \<open>
  \<open>DeviceInformation\<close> (model.py), the CoAP client of the library \<open>aioairctrl\<close>, and the
  \<open>Coordinator\<close> with the attributes that the sources read: \<open>client\<close>, \<open>status\<close>,
  \<open>_timeout\<close>, \<open>_listeners\<close>, \<open>_task\<close>, \<open>_reconnect_task\<close> and \<open>_timer_disconnected\<close>.
  A task is its \<open>done()\<close> flag; a timer is its attribute \<open>is_running\<close>, when it has one.
  An attribute that \<open>getattr\<close> or \<open>hasattr\<close> may find missing is an option.
\<close>

record device_information =
  di_host :: string
  di_mac :: "string option"
  di_model :: string
  di_name :: string
  di_device_id :: string

datatype client = CoAPClient string

datatype task = Task bool

datatype timer = Timer "bool option"

record coordinator =
  co_client :: "client option"
  co_host :: string
  co_status :: "status option"
  co_timeout :: "int option"
  co_listeners :: "nat list"
  co_task :: "task option"
  co_reconnect_task :: "task option"
  co_timer_disconnected :: "timer option"

record config_entry_data =
  ced_device_information :: device_information
  ced_coordinator :: coordinator
  ced_latest_status :: "status option"
  ced_client :: client

text \<open>
  A config entry of Home Assistant. \<open>entry.data\<close> is a dictionary with the keys
  \<open>CONF_HOST\<close>, \<open>CONF_MODEL\<close>, \<open>CONF_NAME\<close>, \<open>CONF_DEVICE_ID\<close> and \<open>CONF_STATUS\<close>; a key that
  is missing is \<open>None\<close> here, and \<open>entry.data[k]\<close> on it raises \<open>KeyError\<close>.
\<close>

datatype val =
    VNone
  | VBool bool
  | VInt int
  | VStr string
  | VList "val list"
  | VDict "(string \<times> val) list"
  | VSet "val list"
  | VTuple "val list"

record entry_data =
  ed_host :: "string option"
  ed_model :: "string option"
  ed_name :: "string option"
  ed_device_id :: "string option"
  ed_status :: "status option"

record config_entry =
  entry_id :: string
  entry_title :: string
  entry_version :: int
  entry_data :: entry_data
  entry_options :: "(string \<times> val) list"
  entry_source :: string
  entry_state :: string

record device_entry =
  dev_id :: string
  dev_manufacturer :: "string option"
  dev_model :: "string option"
  dev_name :: "string option"
  dev_sw_version :: "string option"
  dev_hw_version :: "string option"
  dev_connections :: "(string \<times> string) list"
  dev_identifiers :: "(string \<times> string) list"
  dev_config_entries :: "string list"

record entity_entry =
  ent_entity_id :: string
  ent_platform :: string
  ent_device_class :: "string option"
  ent_entity_category :: "string option"
  ent_disabled_by :: "string option"
  ent_hidden_by :: "string option"
  ent_has_entity_name :: bool
  ent_translation_key :: "string option"
  ent_config_entry_id :: "string option"

text \<open>
  What the functions do to the outside world, in the order they do it: the connection
  attempt with its bound in seconds, the blocking first refresh, the update of the stored
  entry, the forwarding to the platforms, the shutdown of a coordinator and the creation
  of the health-check task. The string is the host or the entry id concerned.
\<close>

datatype event =
    EvCreateClient string nat
  | EvFirstRefresh string
  | EvUpdateEntry string
  | EvForwardSetups string "string list"
  | EvForwardUnload string string
  | EvShutdown string
  | EvCreateTask string

text \<open>
  The part of the \<open>HomeAssistant\<close> object that the sources use: \<open>hass.data.get(DOMAIN)\<close>
  (\<open>None\<close> until \<open>setdefault\<close> creates it), the service registry, the device and entity
  registries, \<open>hass.config.version\<close>, and the trace of the events so far.
\<close>

record hass =
  hass_data :: "(string \<times> config_entry_data) list option"
  hass_services :: service_registry
  hass_devices :: "device_entry list"
  hass_entities :: "entity_entry list"
  hass_version :: string
  hass_trace :: "event list"

text \<open>\<open>hass.data[DOMAIN].get(entry_id)\<close>, also \<open>None\<close> when \<open>hass.data\<close> has no \<open>DOMAIN\<close>.\<close>

definition stored_data :: "hass \<Rightarrow> string \<Rightarrow> config_entry_data option" where
  "stored_data h eid = (case hass_data h of None \<Rightarrow> None | Some d \<Rightarrow> map_of d eid)"

definition log_event :: "event \<Rightarrow> hass \<Rightarrow> hass" where
  "log_event e h = h\<lparr>hass_trace := hass_trace h @ [e]\<rparr>"

section \<open>__init__.py: setting an entry up and unloading it\<close>

definition PLATFORMS :: "string list" where
  "PLATFORMS = [''binary_sensor'', ''climate'', ''fan'', ''humidifier'', ''light'',
                ''number'', ''select'', ''sensor'', ''switch'']"

text \<open>
  What the surroundings answer during one call of \<open>async_setup_entry\<close>:
  the MAC address found for the host, the outcome of
  \<open>asyncio.wait_for(CoAPClient.create(host), timeout=25)\<close> (a timeout is the exception
  \<open>TimeoutError\<close>), the outcome of \<open>coordinator.async_first_refresh()\<close> with the status it
  fetched, whether Home Assistant accepts a service registration, the number of this call
  of \<open>async_setup_services\<close>, and the constant \<open>DOMAIN\<close> of const.py.
\<close>

record setup_env =
  env_mac :: "string option"
  env_create :: "exn + client"
  env_first_refresh :: "exn + status"
  env_accepts :: "string \<Rightarrow> string \<Rightarrow> bool"
  env_gen :: nat
  env_DOMAIN :: string

text \<open>
  Modelled from the spec: the constructor \<open>Coordinator(hass, client, host, status)\<close> of
  coordinator.py, which is not among the sources. It is "constructed with a device address
  and (optionally) a previously-persisted status snapshot used to pre-populate the cache";
  no listener is registered and no task runs yet.
\<close>

definition Coordinator :: "client \<Rightarrow> string \<Rightarrow> status option \<Rightarrow> coordinator" where
  "Coordinator c host st =
     \<lparr>co_client = Some c, co_host = host, co_status = st, co_timeout = None,
      co_listeners = [], co_task = None, co_reconnect_task = None,
      co_timer_disconnected = Some (Timer None)\<rparr>"

text \<open>
  Modelled from the spec: \<open>Coordinator.async_first_refresh\<close> of coordinator.py, which is not
  among the sources. It "fails with a connectivity error if the device cannot be reached
  within the bound"; when it succeeds the cache holds the status that was read. Its
  outcome is the parameter \<open>env_first_refresh\<close>.
\<close>

definition async_first_refresh :: "setup_env \<Rightarrow> coordinator \<Rightarrow> exn + coordinator" where
  "async_first_refresh env co =
     (case env_first_refresh env of
        Inl ex \<Rightarrow> Inl ex
      | Inr st \<Rightarrow> Inr (co\<lparr>co_status := Some st\<rparr>))"

definition async_update_entry :: "config_entry \<Rightarrow> entry_data \<Rightarrow> config_entry" where
  "async_update_entry entry new_data = entry\<lparr>entry_data := new_data\<rparr>"

text \<open>
  Lines 166 to 180 of \<open>async_setup_entry\<close>: the status and the coordinator, with or
  without a persisted status in the entry.
\<close>

definition setup_coordinator ::
  "setup_env \<Rightarrow> hass \<Rightarrow> config_entry \<Rightarrow> client \<Rightarrow> string
     \<Rightarrow> (exn + (status option \<times> coordinator)) \<times> hass \<times> config_entry" where
  "setup_coordinator env h entry c host =
     (case ed_status (entry_data entry) of
        None \<Rightarrow>
          (let coordinator = Coordinator c host None;
               h1 = log_event (EvFirstRefresh host) h
           in case async_first_refresh env coordinator of
                Inl ex \<Rightarrow> (Inl ex, h1, entry)
              | Inr coordinator' \<Rightarrow>
                  (let status = co_status coordinator';
                       new_data = (entry_data entry)\<lparr>ed_status := status\<rparr>;
                       entry' = async_update_entry entry new_data;
                       h2 = log_event (EvUpdateEntry (entry_id entry)) h1
                   in (Inr (status, coordinator'), h2, entry')))
      | Some status \<Rightarrow> (Inr (Some status, Coordinator c host (Some status)), h, entry))"

definition async_setup_entry ::
  "setup_env \<Rightarrow> hass \<Rightarrow> config_entry \<Rightarrow> (exn + bool) \<times> hass \<times> config_entry" where
  "async_setup_entry env h entry =
     (case ed_host (entry_data entry) of
        None \<Rightarrow> (Inl KeyError, h, entry)
      | Some host \<Rightarrow>
     (case ed_model (entry_data entry) of
        None \<Rightarrow> (Inl KeyError, h, entry)
      | Some model \<Rightarrow>
     (case ed_name (entry_data entry) of
        None \<Rightarrow> (Inl KeyError, h, entry)
      | Some name \<Rightarrow>
     (case ed_device_id (entry_data entry) of
        None \<Rightarrow> (Inl KeyError, h, entry)
      | Some device_id \<Rightarrow>
      (let mac = env_mac env;
           h1 = log_event (EvCreateClient host 25) h
       in (case env_create env of
            Inl ex \<Rightarrow> (Inl ConfigEntryNotReady, h1, entry)
          | Inr c \<Rightarrow>
              (let device_information =
                     \<lparr>di_host = host, di_mac = mac, di_model = model, di_name = name,
                      di_device_id = device_id\<rparr>
               in (case setup_coordinator env h1 entry c host of
                    (Inl ex, h2, entry') \<Rightarrow> (Inl ex, h2, entry')
                  | (Inr (status, coordinator), h2, entry') \<Rightarrow>
                      (let config_entry_data =
                             \<lparr>ced_device_information = device_information,
                              ced_coordinator = coordinator,
                              ced_latest_status = status,
                              ced_client = c\<rparr>;
                           domain_data = (case hass_data h2 of None \<Rightarrow> [] | Some d \<Rightarrow> d);
                           h3 = h2\<lparr>hass_data :=
                                   Some (AList.update (entry_id entry) config_entry_data
                                           domain_data)\<rparr>;
                           h4 = log_event (EvForwardSetups (entry_id entry) PLATFORMS) h3;
                           h5 = h4\<lparr>hass_services :=
                                   async_setup_services (env_accepts env) (env_DOMAIN env)
                                     (env_gen env) (hass_services h4)\<rparr>;
                           h6 = log_event (EvCreateTask (entry_id entry)) h5
                       in (Inr True, h6, entry'))))))))))"

text \<open>The loop \<open>for p in PLATFORMS\<close> of \<open>async_unload_entry\<close>.\<close>

fun forward_unloads :: "string \<Rightarrow> string list \<Rightarrow> hass \<Rightarrow> hass" where
  "forward_unloads eid [] h = h"
| "forward_unloads eid (p # ps) h = forward_unloads eid ps (log_event (EvForwardUnload eid p) h)"

text \<open>
  Modelled from the spec: \<open>Coordinator.shutdown\<close> of coordinator.py, which is not among the
  sources. "Shutdown never fails": the call is an event of the trace and raises nothing.
\<close>

definition shutdown :: "string \<Rightarrow> hass \<Rightarrow> hass" where
  "shutdown eid h = log_event (EvShutdown eid) h"

definition async_unload_entry :: "string \<Rightarrow> hass \<Rightarrow> config_entry \<Rightarrow> (exn + bool) \<times> hass" where
  "async_unload_entry DOMAIN h entry =
     (let h1 = forward_unloads (entry_id entry) PLATFORMS h
      in case hass_data h1 of
           None \<Rightarrow> (Inl KeyError, h1)
         | Some d \<Rightarrow>
             (case map_of d (entry_id entry) of
                None \<Rightarrow> (Inl KeyError, h1)
              | Some config_entry_data \<Rightarrow>
                  (let h2 = shutdown (entry_id entry) h1;
                       d' = AList.delete (entry_id entry) d;
                       h3 = h2\<lparr>hass_data := Some d'\<rparr>;
                       h4 = (if d' = []
                             then h3\<lparr>hass_services :=
                                       async_unload_services DOMAIN (hass_services h3)\<rparr>
                             else h3)
                   in (Inr True, h4))))"

section \<open>select.py: a control write from a select entity\<close>

text \<open>
  A \<open>PhilipsSelect\<close>: the status key \<open>kind\<close> it controls and its dictionary \<open>_options\<close> from
  device values to the option strings shown to the user. \<open>_device_status\<close> is the
  coordinator's status dictionary, shared with every other entity.

  The state is that dictionary and the trace of what the entity does to the outside: a
  write sent to the device, an assignment to the cached status, and the call of
  \<open>_handle_coordinator_update\<close>.
\<close>

record philips_select =
  sel_kind :: string
  sel_options :: "(scalar \<times> string) list"

datatype select_event =
    NetWrite string scalar
  | CacheSet string scalar
  | HandleUpdate

record select_state =
  device_status :: status
  sel_trace :: "select_event list"

text \<open>
  \<open>next(key for key, value in self._options.items() if value == option)\<close>: the first key
  whose value is the option; \<open>None\<close> when the generator is exhausted.
\<close>

fun next_option_key :: "(scalar \<times> string) list \<Rightarrow> string \<Rightarrow> scalar option" where
  "next_option_key [] option = None"
| "next_option_key ((key, v) # items) option =
     (if v = option then Some key else next_option_key items option)"

text \<open>
  \<open>set_control_value write kind option_key\<close> is \<open>None\<close> when
  \<open>coordinator.client.set_control_value\<close> returns and the exception when it raises; the
  client belongs to the library \<open>aioairctrl\<close>, so the answer is the parameter \<open>write\<close>.
  The result of \<open>async_select_option\<close> is the exception that leaves it, if any. An exhausted
  \<open>next\<close> raises \<open>StopIteration\<close>, which leaves a coroutine as \<open>RuntimeError\<close>.
\<close>

definition async_select_option ::
  "(string \<Rightarrow> scalar \<Rightarrow> exn option) \<Rightarrow> philips_select \<Rightarrow> string option \<Rightarrow> select_state
     \<Rightarrow> exn option \<times> select_state" where
  "async_select_option write self option st =
     (case option of
        None \<Rightarrow> (None, st)
      | Some opt \<Rightarrow>
          if length opt = 0 then (None, st)
          else
            (case next_option_key (sel_options self) opt of
               None \<Rightarrow> (Some RuntimeError, st)
             | Some option_key \<Rightarrow>
                 (let st1 = st\<lparr>sel_trace := sel_trace st @ [NetWrite (sel_kind self) option_key]\<rparr>
                  in case write (sel_kind self) option_key of
                       None \<Rightarrow>
                         (None,
                          st1\<lparr>device_status :=
                                 AList.update (sel_kind self) option_key (device_status st1),
                               sel_trace :=
                                 sel_trace st1 @ [CacheSet (sel_kind self) option_key, HandleUpdate]\<rparr>)
                     | Some KeyError \<Rightarrow> (None, st1)
                     | Some ValueError \<Rightarrow> (None, st1)
                     | Some ex \<Rightarrow> (Some ex, st1))))"

section \<open>sensor.py: the value of a filter sensor\<close>

text \<open>
  Python's arithmetic on status values: a flag is the integer 0 or 1, a string is a
  \<open>TypeError\<close>.
\<close>

fun num_of :: "scalar \<Rightarrow> exn + int" where
  "num_of (SInt i) = Inr i"
| "num_of (SBool b) = Inr (if b then 1 else 0)"
| "num_of (SStr s) = Inl TypeError"


fun digits_of :: "nat \<Rightarrow> string" where
  "digits_of n =
     (if n < 10 then [char_of (48 + n)]
      else digits_of (n div 10) @ [char_of (48 + n mod 10)])"

declare digits_of.simps [simp del]

definition str_of_int :: "int \<Rightarrow> string" where
  "str_of_int i = (if i < 0 then CHR ''-'' # digits_of (nat (- i)) else digits_of (nat i))"









section \<open>repairs.py: the filter check of the health check\<close>

definition filter_keys :: "(string \<times> string) list" where
  "filter_keys =
     [(''fltsts0'', ''flttotal0''), (''fltsts1'', ''flttotal1''),
      (''fltsts2'', ''flttotal2''), (''D05-14'', ''D05-08'')]"



section \<open>diagnostics.py\<close>

definition TO_REDACT :: "string list" where
  "TO_REDACT =
     [''device_id'', ''DeviceId'', ''device_serial'', ''serial_number'', ''mac'',
      ''ip_address'', ''host'', ''ssid'', ''wifi_ssid'', ''network_name'', ''bssid'',
      ''wifi_password'', ''password'', ''token'', ''api_key'', ''unique_id'', ''id'',
      ''entry_id'', ''config_entry_id'']"

definition REDACTED :: string where
  "REDACTED = ''**REDACTED**''"

text \<open>
  \<open>async_redact_data\<close> is Home Assistant's helper (components/diagnostics/util.py), not
  code of the integration. It copies a dictionary and, for every key whose value is neither
  \<open>None\<close> nor the empty string, replaces the value by \<open>REDACTED\<close> when the key is in
  \<open>to_redact\<close>, and otherwise descends into a value that is a dictionary or a list. A list
  is redacted item by item; any other value, a set or a tuple too, is returned as it is.
\<close>

fun async_redact_data :: "val \<Rightarrow> string list \<Rightarrow> val" where
  "async_redact_data (VList items) to_redact =
     VList (map (\<lambda>item. async_redact_data item to_redact) items)"
| "async_redact_data (VDict d) to_redact =
     VDict (map (\<lambda>(key, v).
              (key,
               if v = VNone then v
               else if v = VStr [] then v
               else if key \<in> set to_redact then VStr REDACTED
               else (case v of
                       VDict _ \<Rightarrow> async_redact_data v to_redact
                     | VList _ \<Rightarrow> async_redact_data v to_redact
                     | _ \<Rightarrow> v))) d)"
| "async_redact_data v to_redact = v"

fun val_of :: "scalar \<Rightarrow> val" where
  "val_of (SInt i) = VInt i"
| "val_of (SBool b) = VBool b"
| "val_of (SStr s) = VStr s"

fun str_of :: "scalar \<Rightarrow> string" where
  "str_of (SInt i) = str_of_int i"
| "str_of (SBool b) = (if b then ''True'' else ''False'')"
| "str_of (SStr s) = s"

definition opt_str :: "string option \<Rightarrow> val" where
  "opt_str x = (case x of None \<Rightarrow> VNone | Some s \<Rightarrow> VStr s)"

text \<open>\<open>status.get(key, default)\<close>.\<close>

definition status_get :: "status \<Rightarrow> string \<Rightarrow> val \<Rightarrow> val" where
  "status_get st key dflt = (case map_of st key of None \<Rightarrow> dflt | Some v \<Rightarrow> val_of v)"

text \<open>
  What the surroundings answer during one call of the diagnostics: \<open>sys.version\<close>, the
  time \<open>dt_util.utcnow().isoformat()\<close>, and the constant \<open>DOMAIN\<close> of const.py.
\<close>

record diag_env =
  denv_python_version :: string
  denv_timestamp :: string
  denv_DOMAIN :: string

definition get_system_info :: "diag_env \<Rightarrow> hass \<Rightarrow> config_entry \<Rightarrow> val" where
  "get_system_info env h entry =
     VDict [(''home_assistant_version'', VStr (hass_version h)),
            (''python_version'', VStr (denv_python_version env)),
            (''integration_version'', VStr ''0.26.0''),
            (''domain'', VStr (denv_DOMAIN env)),
            (''entry_id'', VStr (entry_id entry)),
            (''entry_title'', VStr (entry_title entry)),
            (''entry_version'', VInt (entry_version entry)),
            (''timestamp'', VStr (denv_timestamp env))]"

text \<open>
  \<open>t is not None and not t.done() if t else False\<close> for a task attribute \<open>t\<close> of the
  coordinator.
\<close>

definition task_active :: "task option \<Rightarrow> bool" where
  "task_active t = (case t of None \<Rightarrow> False | Some (Task done) \<Rightarrow> \<not> done)"

definition get_integration_info :: "diag_env \<Rightarrow> config_entry_data \<Rightarrow> val" where
  "get_integration_info env config_entry_data =
     (let coordinator = ced_coordinator config_entry_data;
          device_info = ced_device_information config_entry_data
      in VDict
           [(''integration_domain'', VStr (denv_DOMAIN env)),
            (''integration_name'', VStr ''Philips AirPurifier''),
            (''device_model'', VStr (di_model device_info)),
            (''device_name'', VStr (di_name device_info)),
            (''device_host'', VStr (di_host device_info)),
            (''coordinator_status'',
               VDict
                 [(''is_connected'', VBool (co_client coordinator \<noteq> None)),
                  (''timeout_setting'',
                     (case co_timeout coordinator of
                        None \<Rightarrow> VStr ''unknown''
                      | Some t \<Rightarrow> VInt t)),
                  (''has_listeners'', VBool (length (co_listeners coordinator) > 0)),
                  (''task_running'', VBool (task_active (co_task coordinator)))]),
            (''client_info'',
               VDict
                 [(''client_type'',
                     (case co_client coordinator of
                        None \<Rightarrow> VNone
                      | Some c \<Rightarrow> VStr ''CoAPClient'')),
                  (''client_available'', VBool (co_client coordinator \<noteq> None))])])"

definition get_device_info :: "config_entry_data \<Rightarrow> device_entry option \<Rightarrow> val" where
  "get_device_info config_entry_data device_entry =
     (let device_info = ced_device_information config_entry_data;
          status = or_empty (ced_latest_status config_entry_data);
          device_data =
            [(''device_model'', VStr (di_model device_info)),
             (''device_name'', VStr (di_name device_info)),
             (''device_host'', VStr (di_host device_info)),
             (''device_mac'', opt_str (di_mac device_info)),
             (''device_id_from_config'', VStr (di_device_id device_info))];
          device_data1 =
            (case device_entry of
               None \<Rightarrow> device_data
             | Some dev \<Rightarrow>
                 dict_update device_data
                   [(''device_registry_id'', VStr (dev_id dev)),
                    (''device_manufacturer'', opt_str (dev_manufacturer dev)),
                    (''device_model_registry'', opt_str (dev_model dev)),
                    (''device_name_registry'', opt_str (dev_name dev)),
                    (''device_sw_version'', opt_str (dev_sw_version dev)),
                    (''device_hw_version'', opt_str (dev_hw_version dev)),
                    (''device_connections'',
                       VSet (map (\<lambda>(a, b). VTuple [VStr a, VStr b]) (dev_connections dev))),
                    (''device_identifiers'',
                       VSet (map (\<lambda>(a, b). VTuple [VStr a, VStr b]) (dev_identifiers dev))),
                    (''device_config_entries'', VList (map VStr (dev_config_entries dev)))]);
          device_data2 =
            (if status \<noteq> [] then
               dict_update device_data1
                 [(''device_status_keys'', VList (map (\<lambda>(k, v). VStr k) status)),
                  (''device_status_count'', VInt (int (length status))),
                  (''has_error_code'', VBool (has_key status ''err'')),
                  (''error_code_value'', status_get status ''err'' (VStr ''N/A'')),
                  (''has_wifi_version'', VBool (has_key status ''WifiVersion'')),
                  (''wifi_version'', status_get status ''WifiVersion'' (VStr ''N/A'')),
                  (''has_software_version'', VBool (has_key status ''swversion'')),
                  (''software_version'', status_get status ''swversion'' (VStr ''N/A'')),
                  (''has_model_id'', VBool (has_key status ''modelid'')),
                  (''model_id'', status_get status ''modelid'' (VStr ''N/A'')),
                  (''has_product_id'', VBool (has_key status ''ProductId'')),
                  (''product_id'', status_get status ''ProductId'' (VStr ''N/A''))]
             else device_data1)
      in VDict device_data2)"

definition get_signal_quality :: "scalar \<Rightarrow> exn + string" where
  "get_signal_quality rssi =
     (case num_of rssi of
        Inl ex \<Rightarrow> Inl ex
      | Inr r \<Rightarrow>
          Inr (if r \<ge> - 50 then ''excellent''
               else if r \<ge> - 60 then ''good''
               else if r \<ge> - 70 then ''fair''
               else ''poor''))"

definition get_connectivity_info :: "config_entry_data \<Rightarrow> exn + val" where
  "get_connectivity_info config_entry_data =
     (let coordinator = ced_coordinator config_entry_data;
          device_info = ced_device_information config_entry_data;
          status = or_empty (ced_latest_status config_entry_data);
          connectivity_data =
            [(''host'', VStr (di_host device_info)),
             (''connection_status'',
                VStr (if co_client coordinator \<noteq> None then ''connected'' else ''disconnected'')),
             (''coordinator_available'', VBool True),
             (''has_status_data'', VBool (length status > 0)),
             (''status_data_age'', VStr ''unknown'')];
          client_status =
            (if co_client coordinator \<noteq> None then ''available'' else ''unavailable'')
      in case map_of status ''rssi'' of
           None \<Rightarrow>
             Inr (VDict (AList.update ''client_status'' (VStr client_status) connectivity_data))
         | Some rssi_value \<Rightarrow>
             (case get_signal_quality rssi_value of
                Inl ex \<Rightarrow> Inl ex
              | Inr quality \<Rightarrow>
                  Inr (VDict
                         (AList.update ''client_status'' (VStr client_status)
                            (dict_update connectivity_data
                               [(''signal_strength_dbm'', val_of rssi_value),
                                (''signal_quality'', VStr quality)])))))"

definition get_performance_metrics :: "config_entry_data \<Rightarrow> val" where
  "get_performance_metrics config_entry_data =
     (let coordinator = ced_coordinator config_entry_data
      in VDict
           [(''coordinator_listeners'', VInt (int (length (co_listeners coordinator)))),
            (''update_method'',
               VStr (if co_task coordinator \<noteq> None then ''push'' else ''unknown'')),
            (''reconnect_task_active'', VBool (task_active (co_reconnect_task coordinator))),
            (''timer_disconnected_active'',
               (case co_timer_disconnected coordinator of
                  None \<Rightarrow> VBool False
                | Some (Timer None) \<Rightarrow> VStr ''unknown''
                | Some (Timer (Some running)) \<Rightarrow> VBool running)),
            (''memory_usage'', VStr ''not_tracked''),
            (''api_call_count'', VStr ''not_tracked''),
            (''cache_hit_rate'', VStr ''not_applicable'')])"

text \<open>The loop \<open>for entity in entities\<close> of \<open>_get_entity_info\<close>.\<close>

fun count_entities ::
  "entity_entry list \<Rightarrow> (string \<times> int) list \<Rightarrow> val list \<Rightarrow> (string \<times> int) list \<times> val list" where
  "count_entities [] entity_counts entity_details = (entity_counts, entity_details)"
| "count_entities (entity # entities) entity_counts entity_details =
     (let platform = ent_platform entity
      in count_entities entities
           (AList.update platform
              ((case map_of entity_counts platform of None \<Rightarrow> 0 | Some n \<Rightarrow> n) + 1)
              entity_counts)
           (entity_details @
              [VDict [(''entity_id'', VStr (ent_entity_id entity)),
                      (''platform'', VStr platform),
                      (''device_class'', opt_str (ent_device_class entity)),
                      (''entity_category'', opt_str (ent_entity_category entity)),
                      (''disabled'', VBool (ent_disabled_by entity \<noteq> None)),
                      (''hidden'', VBool (ent_hidden_by entity \<noteq> None)),
                      (''has_entity_name'', VBool (ent_has_entity_name entity)),
                      (''translation_key'', opt_str (ent_translation_key entity))]]))"

text \<open>\<open>er.async_entries_for_config_entry(entity_registry, entry.entry_id)\<close>.\<close>

definition async_entries_for_config_entry :: "entity_entry list \<Rightarrow> string \<Rightarrow> entity_entry list" where
  "async_entries_for_config_entry registry eid =
     filter (\<lambda>entity. ent_config_entry_id entity = Some eid) registry"

definition get_entity_info :: "hass \<Rightarrow> config_entry \<Rightarrow> val" where
  "get_entity_info h entry =
     (let entities = async_entries_for_config_entry (hass_entities h) (entry_id entry)
      in case count_entities entities [] [] of
           (entity_counts, entity_details) \<Rightarrow>
             VDict [(''total_entities'', VInt (int (length entities))),
                    (''entity_counts_by_platform'',
                       VDict (map (\<lambda>(k, n). (k, VInt n)) entity_counts)),
                    (''entity_details'', VList entity_details)])"

definition get_configuration_data :: "config_entry \<Rightarrow> val" where
  "get_configuration_data entry =
     VDict
       [(''config_entry_data'',
           VDict [(''host'', opt_str (ed_host (entry_data entry))),
                  (''model'', opt_str (ed_model (entry_data entry))),
                  (''name'', opt_str (ed_name (entry_data entry))),
                  (''has_device_id'', VBool (ed_device_id (entry_data entry) \<noteq> None)),
                  (''has_status'', VBool (ed_status (entry_data entry) \<noteq> None)),
                  (''status_keys_count'',
                     VInt (int (length (or_empty (ed_status (entry_data entry))))))]),
        (''config_entry_options'', VDict (entry_options entry)),
        (''config_entry_source'', VStr (entry_source entry)),
        (''config_entry_state'', VStr (entry_state entry))]"

definition get_error_tracking :: "config_entry_data \<Rightarrow> val" where
  "get_error_tracking config_entry_data =
     (let status = or_empty (ced_latest_status config_entry_data);
          err = (case map_of status ''err'' of None \<Rightarrow> SInt 0 | Some e \<Rightarrow> e)
      in VDict
           [(''device_error_code'', val_of err),
            (''device_error_description'',
               VStr (if py_eq err (SInt 0) then ''Normal Operation''
                     else ''Error Code: '' @
                            (case map_of status ''err'' of
                               None \<Rightarrow> ''unknown''
                             | Some e \<Rightarrow> str_of e))),
            (''recent_exceptions'', VStr ''not_tracked''),
            (''connection_failures'', VStr ''not_tracked''),
            (''api_timeouts'', VStr ''not_tracked'')])"

text \<open>\<open>key.startswith(('flt', 'wick', 'D05'))\<close>.\<close>

definition is_filter_key :: "string \<Rightarrow> bool" where
  "is_filter_key key = (prefix ''flt'' key \<or> prefix ''wick'' key \<or> prefix ''D05'' key)"

definition get_device_status :: "config_entry_data \<Rightarrow> val" where
  "get_device_status config_entry_data =
     (let status = or_empty (ced_latest_status config_entry_data)
      in if status = [] then VDict [(''status'', VStr ''no_data_available'')]
         else
           (let unknown = VStr ''unknown'';
                filter_keys = filter is_filter_key (map fst status);
                filters =
                  dict_update []
                    (map (\<lambda>filter_key. (filter_key, status_get status filter_key VNone))
                       filter_keys)
            in VDict
                 [(''power_status'',
                     VStr (if (case map_of status ''pwr'' of
                                 None \<Rightarrow> False
                               | Some p \<Rightarrow> py_eq p (SStr ''1''))
                           then ''on'' else ''off'')),
                  (''mode'', status_get status ''mode'' unknown),
                  (''fan_speed'', status_get status ''om'' unknown),
                  (''air_quality'',
                     VDict [(''pm25'', status_get status ''pm25'' unknown),
                            (''indoor_allergen_index'', status_get status ''iaql'' unknown),
                            (''gas_level'',
                               (if has_key status ''gas'' then status_get status ''gas'' unknown
                                else VStr ''not_available''))]),
                  (''environmental'',
                     VDict [(''temperature'', status_get status ''temp'' unknown),
                            (''humidity'', status_get status ''rh'' unknown)]),
                  (''filters'', VDict filters),
                  (''settings'',
                     VDict [(''child_lock'',
                               VStr (if (case map_of status ''cl'' of
                                           None \<Rightarrow> False
                                         | Some c \<Rightarrow> py_eq c (SBool True))
                                     then ''on'' else ''off'')),
                            (''display_backlight'', status_get status ''uil'' unknown),
                            (''preferred_index'', status_get status ''ddp'' unknown)]),
                  (''device_info'',
                     VDict [(''runtime'', status_get status ''Runtime'' unknown),
                            (''wifi_version'', status_get status ''WifiVersion'' unknown),
                            (''software_version'', status_get status ''swversion'' unknown),
                            (''model_id'', status_get status ''modelid'' unknown),
                            (''product_id'', status_get status ''ProductId'' unknown)])]))"

text \<open>
  What the diagnostics read of a coordinator: whether it has a client, the timeout, the
  number of listeners, the two tasks and the timer.
\<close>

definition introspection ::
  "coordinator \<Rightarrow> bool \<times> int option \<times> nat \<times> task option \<times> task option \<times> timer option" where
  "introspection co =
     (co_client co \<noteq> None, co_timeout co, length (co_listeners co), co_task co,
      co_reconnect_task co, co_timer_disconnected co)"


text \<open>
  \<open>async_get_config_entry_diagnostics\<close>. It returns its result, or the exception that
  leaves it, together with the \<open>hass\<close> object as it is afterwards.
\<close>

definition async_get_config_entry_diagnostics ::
  "diag_env \<Rightarrow> hass \<Rightarrow> config_entry \<Rightarrow> (exn + val) \<times> hass" where
  "async_get_config_entry_diagnostics env h entry =
     (case hass_data h of
        None \<Rightarrow> (Inl KeyError, h)
      | Some d \<Rightarrow>
          (case map_of d (entry_id entry) of
             None \<Rightarrow> (Inl KeyError, h)
           | Some config_entry_data \<Rightarrow>
               (let device_entry =
                      find (\<lambda>device. entry_id entry \<in> set (dev_config_entries device))
                        (hass_devices h)
                in case get_connectivity_info config_entry_data of
                     Inl ex \<Rightarrow> (Inl ex, h)
                   | Inr connectivity_info \<Rightarrow>
                       (let diagnostics_data =
                              VDict
                                [(''system_info'', get_system_info env h entry),
                                 (''integration_info'',
                                    get_integration_info env config_entry_data),
                                 (''device_info'',
                                    get_device_info config_entry_data device_entry),
                                 (''connectivity_info'', connectivity_info),
                                 (''performance_metrics'',
                                    get_performance_metrics config_entry_data),
                                 (''entity_info'', get_entity_info h entry),
                                 (''configuration_data'', get_configuration_data entry),
                                 (''error_tracking'', get_error_tracking config_entry_data),
                                 (''device_status'', get_device_status config_entry_data)]
                        in (Inr (async_redact_data diagnostics_data TO_REDACT), h)))))"

section \<open>The Coordinator's status cache\<close>

text \<open>
  Modelled from the spec: the StatusCache of coordinator.py, which is not among the
  sources. "A delta is a partial mapping; merge = union with right-bias (new values win)
  on matching keys, keys absent from the delta are untouched."
\<close>

definition merge_delta :: "status \<Rightarrow> status \<Rightarrow> status" where
  "merge_delta cache delta = dict_update cache delta"

text \<open>
  Modelled from the spec: the state machine of the Coordinator (coordinator.py, not among
  the sources), section 4.1, as far as the cache is concerned. The states are
  \<open>INIT\<close>, \<open>CONNECTING\<close>, \<open>OBSERVING\<close>, \<open>RECONNECTING\<close> and \<open>SHUTDOWN\<close>. In \<open>OBSERVING\<close>
  "each returned delta is merged into StatusCache"; "while reconnecting, the cache is
  retained as-is"; on the staleness timer "the Coordinator marks the device unavailable";
  \<open>set_control_value\<close> "optimistically updates the local cache entry, then issues the
  network write", and when the write fails "the optimistic cache update is retained";
  \<open>SHUTDOWN\<close> is terminal.
\<close>

datatype phase = INIT | CONNECTING | OBSERVING | RECONNECTING | SHUTDOWN

record coordinator_state =
  cs_phase :: phase
  cs_cache :: status
  cs_available :: bool
  cs_writes :: "(string \<times> scalar) list"

datatype coordinator_op =
    FirstRefresh "status option"
  | ReceiveDelta status
  | LinkError
  | Reconnected
  | StalenessTimeout
  | SetControlValue string scalar bool
  | Shutdown

fun coordinator_step :: "coordinator_op \<Rightarrow> coordinator_state \<Rightarrow> coordinator_state" where
  "coordinator_step (FirstRefresh r) s =
     (if cs_phase s = INIT then
        (case r of
           None \<Rightarrow> s
         | Some st \<Rightarrow>
             s\<lparr>cs_phase := OBSERVING, cs_cache := merge_delta (cs_cache s) st,
               cs_available := True\<rparr>)
      else s)"
| "coordinator_step (ReceiveDelta delta) s =
     (if cs_phase s = OBSERVING
      then s\<lparr>cs_cache := merge_delta (cs_cache s) delta, cs_available := True\<rparr>
      else s)"
| "coordinator_step LinkError s =
     (if cs_phase s = OBSERVING then s\<lparr>cs_phase := RECONNECTING\<rparr> else s)"
| "coordinator_step Reconnected s =
     (if cs_phase s = RECONNECTING then s\<lparr>cs_phase := OBSERVING\<rparr> else s)"
| "coordinator_step StalenessTimeout s =
     (if cs_phase s = SHUTDOWN then s else s\<lparr>cs_available := False\<rparr>)"
| "coordinator_step (SetControlValue key v accepted) s =
     (if cs_phase s = SHUTDOWN then s
      else
        (let s1 = s\<lparr>cs_cache := AList.update key v (cs_cache s)\<rparr>
         in if accepted \<and> cs_phase s = OBSERVING
            then s1\<lparr>cs_writes := cs_writes s1 @ [(key, v)]\<rparr>
            else s1))"
| "coordinator_step Shutdown s = s\<lparr>cs_phase := SHUTDOWN\<rparr>"

fun coordinator_run :: "coordinator_op list \<Rightarrow> coordinator_state \<Rightarrow> coordinator_state" where
  "coordinator_run [] s = s"
| "coordinator_run (x # xs) s = coordinator_run xs (coordinator_step x s)"

section \<open>Example objects\<close>

text \<open>
  An air purifier at 192.168.1.50, its status, a config entry that holds a persisted
  status and an old one that holds none, and a Home Assistant in which nothing is set up
  yet. The theorems below are instantiated at these objects.
\<close>

definition ex_status :: status where
  "ex_status =
     [(''pwr'', SStr ''1''), (''fltsts1'', SInt 120), (''flttotal1'', SInt 4800),
      (''rssi'', SInt (- 55)), (''DeviceId'', SStr ''abc123'')]"

definition ex_entry :: config_entry where
  "ex_entry =
     \<lparr>entry_id = ''e1'', entry_title = ''Bedroom'', entry_version = 1,
      entry_data =
        \<lparr>ed_host = Some ''192.168.1.50'', ed_model = Some ''AC4220/12'',
         ed_name = Some ''Bedroom'', ed_device_id = Some ''abc123'',
         ed_status = Some ex_status\<rparr>,
      entry_options = [], entry_source = ''user'', entry_state = ''loaded''\<rparr>"

definition ex_entry_old :: config_entry where
  "ex_entry_old = ex_entry\<lparr>entry_data := (entry_data ex_entry)\<lparr>ed_status := None\<rparr>\<rparr>"

definition ex_hass :: hass where
  "ex_hass =
     \<lparr>hass_data = None, hass_services = [], hass_devices = [], hass_entities = [],
      hass_version = ''2025.1.0'', hass_trace = []\<rparr>"

definition ex_env :: setup_env where
  "ex_env =
     \<lparr>env_mac = Some ''aa:bb:cc:dd:ee:ff'',
      env_create = Inr (CoAPClient ''192.168.1.50''),
      env_first_refresh = Inr ex_status,
      env_accepts = (\<lambda>domain service. True),
      env_gen = 1,
      env_DOMAIN = ''philips_airpurifier''\<rparr>"



definition ex_config_entry_data :: config_entry_data where
  "ex_config_entry_data =
     \<lparr>ced_device_information =
        \<lparr>di_host = ''192.168.1.50'', di_mac = Some ''aa:bb:cc:dd:ee:ff'',
         di_model = ''AC4220/12'', di_name = ''Bedroom'', di_device_id = ''abc123''\<rparr>,
      ced_coordinator = Coordinator (CoAPClient ''192.168.1.50'') ''192.168.1.50'' (Some ex_status),
      ced_latest_status = Some ex_status,
      ced_client = CoAPClient ''192.168.1.50''\<rparr>"

text \<open>The same Home Assistant with the entry set up and two of the services registered.\<close>

definition ex_hass_loaded :: hass where
  "ex_hass_loaded =
     ex_hass\<lparr>hass_data := Some [(''e1'', ex_config_entry_data)],
             hass_services :=
               [((''philips_airpurifier'', ''set_timer''), Handler ''set_timer'' 1),
                ((''light'', ''turn_on''), Handler ''turn_on'' 0)]\<rparr>"

text \<open>
  The select entity of the display backlight with its cached status, a client whose
  writes fail, a filter sensor, and a status whose filter capacity is 0.
\<close>

definition ex_select :: philips_select where
  "ex_select = \<lparr>sel_kind = ''uil'', sel_options = [(SStr ''0'', ''off''), (SStr ''1'', ''on'')]\<rparr>"

definition ex_select_state :: select_state where
  "ex_select_state = \<lparr>device_status = [(''uil'', SStr ''0'')], sel_trace = []\<rparr>"

definition ex_write_fails :: "string \<Rightarrow> scalar \<Rightarrow> exn option" where
  "ex_write_fails key v = Some (OtherError ''device unreachable'')"

definition ex_write_ok :: "string \<Rightarrow> scalar \<Rightarrow> exn option" where
  "ex_write_ok key v = None"



definition ex_diag_env :: diag_env where
  "ex_diag_env =
     \<lparr>denv_python_version = ''3.13.1'', denv_timestamp = ''2025-01-01T00:00:00+00:00'',
      denv_DOMAIN = ''philips_airpurifier''\<rparr>"

section \<open>Properties of the service registration\<close>

lemma has_service_register_mono:
  "has_service reg d m \<Longrightarrow> has_service (register_services acc d g ns reg) d m"
  by (induction ns arbitrary: reg)
     (auto simp: has_service_def has_key_def async_register_def update_conv' split: sum.splits)

lemma register_services_registered:
  "n \<in> set ns \<Longrightarrow> acc d n \<Longrightarrow> has_service (register_services acc d g ns reg) d n"
proof (induction ns arbitrary: reg)
  case Nil then show ?case by simp
next
  case (Cons a ns)
  show ?case
  proof (cases "n = a")
    case True
    have "has_service (if \<not> has_service reg d a then
          (case async_register acc reg d a (Handler a g) of Inr reg' \<Rightarrow> reg' | Inl ex \<Rightarrow> reg)
        else reg) d a"
      using Cons.prems True
      by (auto simp: has_service_def has_key_def async_register_def update_conv')
    then show ?thesis using True by (simp add: has_service_register_mono del: not_None_eq)
  next
    case False
    then show ?thesis using Cons by auto
  qed
qed

lemma register_services_skip:
  "(\<And>n. n \<in> set ns \<Longrightarrow> acc d n \<Longrightarrow> has_service reg d n) \<Longrightarrow> register_services acc d g ns reg = reg"
  by (induction ns arbitrary: reg) (auto simp: async_register_def)

lemma register_services_other:
  "k \<notin> (\<lambda>n. (d, n)) ` set ns \<Longrightarrow> map_of (register_services acc d g ns reg) k = map_of reg k"
  by (induction ns arbitrary: reg) (auto simp: async_register_def update_conv')

lemma register_services_kept:
  "has_service reg d n \<Longrightarrow> map_of (register_services acc d g ns reg) (d, n) = map_of reg (d, n)"
  by (induction ns arbitrary: reg)
     (auto simp: has_service_def has_key_def async_register_def update_conv' split: sum.splits)

lemma has_service_async_remove:
  "has_service (async_remove reg d a) d m \<Longrightarrow> has_service reg d m"
  by (auto simp: has_service_def has_key_def async_remove_def delete_conv' split: if_splits)

lemma has_service_remove_anti:
  "has_service (remove_services d ns reg) d m \<Longrightarrow> has_service reg d m"
proof (induction ns arbitrary: reg)
  case Nil then show ?case by simp
next
  case (Cons a ns)
  from Cons.prems
  have "has_service (if has_service reg d a then async_remove reg d a else reg) d m"
    using Cons.IH by simp
  then show ?case by (auto dest: has_service_async_remove split: if_splits)
qed

lemma remove_services_removed:
  "n \<in> set ns \<Longrightarrow> \<not> has_service (remove_services d ns reg) d n"
proof (induction ns arbitrary: reg)
  case Nil then show ?case by simp
next
  case (Cons a ns)
  show ?case
  proof (cases "n = a")
    case True
    have "\<not> has_service (if has_service reg d a then async_remove reg d a else reg) d a"
      by (auto simp: has_service_def has_key_def async_remove_def delete_conv')
    then show ?thesis using True has_service_remove_anti by auto
  next
    case False
    then show ?thesis using Cons by auto
  qed
qed

lemma remove_services_other:
  "k \<notin> (\<lambda>n. (d, n)) ` set ns \<Longrightarrow> map_of (remove_services d ns reg) k = map_of reg k"
  by (induction ns arbitrary: reg) (auto simp: async_remove_def delete_conv')

text \<open>
  C10. Service registration is idempotent and round-trips. \<open>async_setup_services\<close>
  registers a service only when it is not registered yet: a second run, with its new
  handlers, leaves the registry of the first run as it is, and a service that was
  registered before keeps its handler. Every service that Home Assistant accepts is
  registered afterwards, and after \<open>async_setup_services\<close> followed by
  \<open>async_unload_services\<close> none of the seven services is registered.
\<close>

theorem services_idempotent_roundtrip:
  "async_setup_services acc d g2 (async_setup_services acc d g1 reg) = async_setup_services acc d g1 reg
   \<and> (\<forall>n \<in> set service_names. has_service reg d n \<longrightarrow>
          map_of (async_setup_services acc d g1 reg) (d, n) = map_of reg (d, n))
   \<and> (\<forall>n \<in> set service_names. acc d n \<longrightarrow> has_service (async_setup_services acc d g1 reg) d n)
   \<and> (\<forall>n \<in> set service_names.
          \<not> has_service (async_unload_services d (async_setup_services acc d g1 reg)) d n)"
  unfolding async_setup_services_def async_unload_services_def
  by (simp add: register_services_skip register_services_registered register_services_kept
        remove_services_removed)

theorem services_idempotent_roundtrip_witness:
  "length service_names = 7 \<and> distinct service_names \<and>
   async_setup_services (\<lambda>_ _. True) ''pa'' 2 (async_setup_services (\<lambda>_ _. True) ''pa'' 1 [((''pa'', ''set_timer''), Handler ''set_timer'' 0)])
     = async_setup_services (\<lambda>_ _. True) ''pa'' 1 [((''pa'', ''set_timer''), Handler ''set_timer'' 0)]
   \<and> map_of (async_setup_services (\<lambda>_ _. True) ''pa'' 1 [((''pa'', ''set_timer''), Handler ''set_timer'' 0)]) (''pa'', ''set_timer'') = Some (Handler ''set_timer'' 0)
   \<and> has_service (async_setup_services (\<lambda>_ _. True) ''pa'' 1 [((''pa'', ''set_timer''), Handler ''set_timer'' 0)]) ''pa'' ''filter_reset''
   \<and> \<not> has_service (async_unload_services ''pa'' (async_setup_services (\<lambda>_ _. True) ''pa'' 1 [((''pa'', ''set_timer''), Handler ''set_timer'' 0)])) ''pa'' ''set_timer''"
  using services_idempotent_roundtrip [of "\<lambda>_ _. True" "''pa''" 2 1 "[((''pa'', ''set_timer''), Handler ''set_timer'' 0)]"]
  by (simp add: service_names_def SERVICE_FILTER_RESET_def SERVICE_CALIBRATE_SENSORS_def
      SERVICE_SET_DISPLAY_BRIGHTNESS_def SERVICE_SCHEDULE_MAINTENANCE_def SERVICE_SET_CHILD_LOCK_def
      SERVICE_SET_TIMER_def SERVICE_RESET_DEVICE_def has_service_def has_key_def)

section \<open>Properties of the status cache\<close>

lemma update_swap_present:
  "has_key al k \<Longrightarrow> k \<noteq> k' \<Longrightarrow>
     AList.update k' v' (AList.update k v al) = AList.update k v (AList.update k' v' al)"
  by (induction al) (auto simp: has_key_def)

lemma has_key_update: "has_key (AList.update k v al) k' = (k' = k \<or> has_key al k')"
  by (simp add: has_key_def update_conv')

lemma has_key_dict_update:
  "has_key (dict_update c d) k = (has_key c k \<or> k \<in> fst ` set d)"
  by (induction c d rule: dict_update.induct) (auto simp: has_key_update)

lemma dict_update_absorb:
  "k \<in> fst ` set d \<Longrightarrow> has_key c k \<Longrightarrow> dict_update (AList.update k v c) d = dict_update c d"
proof (induction c d rule: dict_update.induct)
  case (1 c) then show ?case by simp
next
  case (2 c k1 v1 e)
  show ?case
  proof (cases "k1 = k")
    case True then show ?thesis by simp
  next
    case False
    have "AList.update k1 v1 (AList.update k v c) = AList.update k v (AList.update k1 v1 c)"
      using "2.prems"(2) False by (simp add: update_swap_present)
    moreover have "k \<in> fst ` set e" using "2.prems"(1) False by auto
    moreover have "has_key (AList.update k1 v1 c) k" using "2.prems"(2) by (simp add: has_key_update)
    ultimately show ?thesis using "2.IH" by simp
  qed
qed

lemma dict_update_commute:
  "k \<notin> fst ` set d \<Longrightarrow> has_key c k \<Longrightarrow>
     dict_update (AList.update k v c) d = AList.update k v (dict_update c d)"
proof (induction c d rule: dict_update.induct)
  case (1 c) then show ?case by simp
next
  case (2 c k1 v1 e)
  have ne: "k1 \<noteq> k" using "2.prems"(1) by auto
  have "AList.update k1 v1 (AList.update k v c) = AList.update k v (AList.update k1 v1 c)"
    using "2.prems"(2) ne by (simp add: update_swap_present)
  moreover have "has_key (AList.update k1 v1 c) k" using "2.prems"(2) by (simp add: has_key_update)
  ultimately show ?case using "2.IH" "2.prems"(1) by simp
qed

lemma map_of_dict_update_other:
  "k \<notin> fst ` set d \<Longrightarrow> map_of (dict_update c d) k = map_of c k"
  by (induction c d rule: dict_update.induct) (auto simp: update_conv')

lemma dict_update_idem: "dict_update (dict_update c d) d = dict_update c d"
proof (induction c d rule: dict_update.induct)
  case (1 c) show ?case by simp
next
  case (2 c k v e)
  let ?c' = "AList.update k v c"
  let ?X = "dict_update ?c' e"
  have hk: "has_key ?X k" by (simp add: has_key_dict_update has_key_update)
  have "dict_update (AList.update k v ?X) e = ?X"
  proof (cases "k \<in> fst ` set e")
    case True
    then show ?thesis using dict_update_absorb [OF True hk] "2.IH" by simp
  next
    case False
    have "map_of ?X k = Some v" using False by (simp add: map_of_dict_update_other update_conv')
    then have "AList.update k v ?X = ?X" by (rule update_triv)
    then show ?thesis using "2.IH" by simp
  qed
  then show ?case by simp
qed

lemma map_of_dict_update:
  "map_of (dict_update c d) = map_of c ++ map_of (rev d)"
proof (induction c d rule: dict_update.induct)
  case (1 c) show ?case by simp
next
  case (2 c k v e)
  show ?case
  proof
    fix x
    show "map_of (dict_update c ((k, v) # e)) x = (map_of c ++ map_of (rev ((k, v) # e))) x"
      using "2.IH" by (auto simp: update_conv' map_add_def split: option.splits)
  qed
qed

lemma map_of_rev_distinct:
  "distinct (map fst d) \<Longrightarrow> map_of (rev d) = map_of d"
proof (induction d)
  case Nil show ?case by simp
next
  case (Cons p d)
  obtain k v where p: "p = (k, v)" by (cases p)
  have "map_of d k = None" using Cons.prems p by (simp add: map_of_eq_None_iff)
  then show ?case using Cons p
    by (auto simp: map_add_def fun_eq_iff split: option.splits)
qed

lemma map_of_dict_update_distinct:
  "distinct (map fst d) \<Longrightarrow> map_of (dict_update c d) = map_of c ++ map_of d"
  by (simp add: map_of_dict_update map_of_rev_distinct)

text \<open>
  C3. Merging into the status cache is idempotent: for every cache and every delta,
  merging the same delta twice gives the cache that merging it once gives. (That
  \<open>merge_delta\<close> is the union with right bias is \<open>map_of_dict_update_distinct\<close>.)
\<close>

theorem merge_idempotent:
  "merge_delta (merge_delta cache delta) delta = merge_delta cache delta"
  by (simp add: merge_delta_def dict_update_idem)

lemma has_key_coordinator_step:
  "has_key (cs_cache s) k \<Longrightarrow> has_key (cs_cache (coordinator_step x s)) k"
  by (cases x) (auto simp: merge_delta_def has_key_dict_update has_key_update Let_def split: option.splits)

text \<open>
  C4. The key set of the status cache never shrinks: whatever sequence of operations the
  Coordinator goes through (first refresh, deltas, link errors, reconnections, staleness
  timeouts, control writes, shutdown), a key that is in the cache is in the cache
  afterwards.
\<close>

theorem cache_keys_never_shrink:
  "has_key (cs_cache s) k \<Longrightarrow> has_key (cs_cache (coordinator_run ops s)) k"
  by (induction ops arbitrary: s) (auto simp: has_key_coordinator_step)

theorem cache_keys_never_shrink_witness:
  "has_key [(''pwr'', SStr ''0'')] ''pwr'' \<and>
   has_key
     (cs_cache
        (coordinator_run
           [FirstRefresh (Some [(''pwr'', SStr ''1'')]), ReceiveDelta [(''om'', SStr ''2'')],
            LinkError, SetControlValue ''cl'' (SBool True) False, Reconnected, Shutdown]
           \<lparr>cs_phase = INIT, cs_cache = [(''pwr'', SStr ''0'')], cs_available = False,
            cs_writes = []\<rparr>))
     ''pwr''"
  using cache_keys_never_shrink
    [of "\<lparr>cs_phase = INIT, cs_cache = [(''pwr'', SStr ''0'')], cs_available = False,
          cs_writes = []\<rparr>" "''pwr''"
        "[FirstRefresh (Some [(''pwr'', SStr ''1'')]), ReceiveDelta [(''om'', SStr ''2'')],
          LinkError, SetControlValue ''cl'' (SBool True) False, Reconnected, Shutdown]"]
  by (simp add: has_key_def)

section \<open>Properties of setup and unloading\<close>

lemma hass_trace_forward_unloads:
  "hass_trace (forward_unloads eid ps h) = hass_trace h @ map (EvForwardUnload eid) ps"
  by (induction ps arbitrary: h) (auto simp: log_event_def)

lemma hass_data_forward_unloads: "hass_data (forward_unloads eid ps h) = hass_data h"
  by (induction ps arbitrary: h) (auto simp: log_event_def)

lemma hass_services_forward_unloads: "hass_services (forward_unloads eid ps h) = hass_services h"
  by (induction ps arbitrary: h) (auto simp: log_event_def)

lemma delete_eq_Nil_iff: "(AList.delete k d = []) = (\<forall>e. map_of d e \<noteq> None \<longrightarrow> e = k)"
proof (induction d)
  case Nil show ?case by simp
next
  case (Cons p d)
  obtain a b where p: "p = (a, b)" by (cases p)
  show ?case
  proof (cases "a = k")
    case True then show ?thesis using Cons p by (auto simp: delete_simps)
  next
    case False then show ?thesis using p by (auto simp: delete_simps)
  qed
qed

lemma setup_coordinator_persisted:
  "ed_status (entry_data entry) = Some st \<Longrightarrow>
     setup_coordinator env h entry c host = (Inr (Some st, Coordinator c host (Some st)), h, entry)"
  by (simp add: setup_coordinator_def)

lemma setup_coordinator_missing_ok:
  "ed_status (entry_data entry) = None \<Longrightarrow> env_first_refresh env = Inr st \<Longrightarrow>
     setup_coordinator env h entry c host =
       (Inr (Some st, (Coordinator c host None)\<lparr>co_status := Some st\<rparr>),
        log_event (EvUpdateEntry (entry_id entry)) (log_event (EvFirstRefresh host) h),
        entry\<lparr>entry_data := (entry_data entry)\<lparr>ed_status := Some st\<rparr>\<rparr>)"
  by (simp add: setup_coordinator_def async_first_refresh_def async_update_entry_def Let_def)



lemma setup_entry_created:
  assumes "ed_host (entry_data entry) = Some host" "ed_model (entry_data entry) = Some model"
    "ed_name (entry_data entry) = Some name" "ed_device_id (entry_data entry) = Some did"
    "env_create env = Inr c"
  shows "async_setup_entry env h entry =
     (case setup_coordinator env (log_event (EvCreateClient host 25) h) entry c host of
        (Inl ex, h2, entry') \<Rightarrow> (Inl ex, h2, entry')
      | (Inr (status, coordinator), h2, entry') \<Rightarrow>
          (Inr True,
           log_event (EvCreateTask (entry_id entry))
             ((log_event (EvForwardSetups (entry_id entry) PLATFORMS)
                (h2\<lparr>hass_data :=
                      Some (AList.update (entry_id entry)
                        \<lparr>ced_device_information =
                            \<lparr>di_host = host, di_mac = env_mac env, di_model = model,
                             di_name = name, di_device_id = did\<rparr>,
                          ced_coordinator = coordinator, ced_latest_status = status,
                          ced_client = c\<rparr>
                        (case hass_data h2 of None \<Rightarrow> [] | Some d \<Rightarrow> d))\<rparr>))
              \<lparr>hass_services :=
                 async_setup_services (env_accepts env) (env_DOMAIN env) (env_gen env)
                   (hass_services h2)\<rparr>),
           entry'))"
  using assms
  by (simp add: async_setup_entry_def Let_def log_event_def split: prod.splits sum.splits)

text \<open>
  C5. Setup pre-populates from persistence exactly when it can. For an entry with its
  four keys and a client that could be created: when the entry holds a persisted status,
  the coordinator is constructed with that status, the entry is left as it is, and the
  events of the call are the connection attempt, the forwarding to the platforms and the
  health-check task, with no first refresh among them; when the entry holds none and
  the first refresh succeeds, the coordinator is constructed without a status, the
  first refresh is made, and the status it fetched is written into the entry's data.
\<close>

theorem setup_prepopulates:
  assumes "ed_host (entry_data entry) = Some host" "ed_model (entry_data entry) = Some model"
    "ed_name (entry_data entry) = Some name" "ed_device_id (entry_data entry) = Some did"
    "env_create env = Inr c"
  shows "(ed_status (entry_data entry) = Some st \<longrightarrow>
            fst (async_setup_entry env h entry) = Inr True
          \<and> snd (snd (async_setup_entry env h entry)) = entry
          \<and> map_option ced_coordinator
               (stored_data (fst (snd (async_setup_entry env h entry))) (entry_id entry))
               = Some (Coordinator c host (Some st))
          \<and> hass_trace (fst (snd (async_setup_entry env h entry))) =
               hass_trace h @ [EvCreateClient host 25,
                               EvForwardSetups (entry_id entry) PLATFORMS,
                               EvCreateTask (entry_id entry)])
       \<and> (ed_status (entry_data entry) = None \<and> env_first_refresh env = Inr st \<longrightarrow>
            fst (async_setup_entry env h entry) = Inr True
          \<and> snd (snd (async_setup_entry env h entry)) =
               entry\<lparr>entry_data := (entry_data entry)\<lparr>ed_status := Some st\<rparr>\<rparr>
          \<and> map_option ced_coordinator
               (stored_data (fst (snd (async_setup_entry env h entry))) (entry_id entry))
               = Some ((Coordinator c host None)\<lparr>co_status := Some st\<rparr>)
          \<and> hass_trace (fst (snd (async_setup_entry env h entry))) =
               hass_trace h @ [EvCreateClient host 25, EvFirstRefresh host,
                               EvUpdateEntry (entry_id entry),
                               EvForwardSetups (entry_id entry) PLATFORMS,
                               EvCreateTask (entry_id entry)])"
proof (intro conjI impI)
  assume p: "ed_status (entry_data entry) = Some st"
  note r = setup_entry_created [OF assms, of h] setup_coordinator_persisted [OF p]
  show "fst (async_setup_entry env h entry) = Inr True" by (simp add: r)
  show "snd (snd (async_setup_entry env h entry)) = entry" by (simp add: r)
  show "map_option ced_coordinator
          (stored_data (fst (snd (async_setup_entry env h entry))) (entry_id entry))
          = Some (Coordinator c host (Some st))"
    by (simp add: r stored_data_def log_event_def update_conv')
  show "hass_trace (fst (snd (async_setup_entry env h entry))) =
          hass_trace h @ [EvCreateClient host 25, EvForwardSetups (entry_id entry) PLATFORMS,
                          EvCreateTask (entry_id entry)]"
    by (simp add: r log_event_def)
next
  assume "ed_status (entry_data entry) = None \<and> env_first_refresh env = Inr st"
  then have p: "ed_status (entry_data entry) = None" and q: "env_first_refresh env = Inr st"
    by simp_all
  note r = setup_entry_created [OF assms, of h] setup_coordinator_missing_ok [OF p q]
  show "fst (async_setup_entry env h entry) = Inr True" by (simp add: r)
  show "snd (snd (async_setup_entry env h entry)) =
          entry\<lparr>entry_data := (entry_data entry)\<lparr>ed_status := Some st\<rparr>\<rparr>" by (simp add: r)
  show "map_option ced_coordinator
          (stored_data (fst (snd (async_setup_entry env h entry))) (entry_id entry))
          = Some ((Coordinator c host None)\<lparr>co_status := Some st\<rparr>)"
    by (simp add: r stored_data_def log_event_def update_conv')
  show "hass_trace (fst (snd (async_setup_entry env h entry))) =
          hass_trace h @ [EvCreateClient host 25, EvFirstRefresh host,
                          EvUpdateEntry (entry_id entry),
                          EvForwardSetups (entry_id entry) PLATFORMS,
                          EvCreateTask (entry_id entry)]"
    by (simp add: r log_event_def)
qed

theorem setup_prepopulates_witness:
  "fst (async_setup_entry ex_env ex_hass ex_entry) = Inr True
   \<and> snd (snd (async_setup_entry ex_env ex_hass ex_entry)) = ex_entry
   \<and> map_option ced_coordinator
        (stored_data (fst (snd (async_setup_entry ex_env ex_hass ex_entry))) (entry_id ex_entry))
        = Some (Coordinator (CoAPClient ''192.168.1.50'') ''192.168.1.50'' (Some ex_status))
   \<and> hass_trace (fst (snd (async_setup_entry ex_env ex_hass ex_entry))) =
        hass_trace ex_hass @
          [EvCreateClient ''192.168.1.50'' 25, EvForwardSetups (entry_id ex_entry) PLATFORMS,
           EvCreateTask (entry_id ex_entry)]
   \<and> fst (async_setup_entry ex_env ex_hass ex_entry_old) = Inr True
   \<and> snd (snd (async_setup_entry ex_env ex_hass ex_entry_old)) =
        ex_entry_old\<lparr>entry_data := (entry_data ex_entry_old)\<lparr>ed_status := Some ex_status\<rparr>\<rparr>
   \<and> hass_trace (fst (snd (async_setup_entry ex_env ex_hass ex_entry_old))) =
        hass_trace ex_hass @
          [EvCreateClient ''192.168.1.50'' 25, EvFirstRefresh ''192.168.1.50'',
           EvUpdateEntry (entry_id ex_entry_old),
           EvForwardSetups (entry_id ex_entry_old) PLATFORMS,
           EvCreateTask (entry_id ex_entry_old)]"
proof -
  have a: "ed_host (entry_data ex_entry) = Some ''192.168.1.50''"
    "ed_model (entry_data ex_entry) = Some ''AC4220/12''"
    "ed_name (entry_data ex_entry) = Some ''Bedroom''"
    "ed_device_id (entry_data ex_entry) = Some ''abc123''"
    "env_create ex_env = Inr (CoAPClient ''192.168.1.50'')"
    "ed_status (entry_data ex_entry) = Some ex_status"
    by (simp_all add: ex_entry_def ex_env_def)
  have b: "ed_host (entry_data ex_entry_old) = Some ''192.168.1.50''"
    "ed_model (entry_data ex_entry_old) = Some ''AC4220/12''"
    "ed_name (entry_data ex_entry_old) = Some ''Bedroom''"
    "ed_device_id (entry_data ex_entry_old) = Some ''abc123''"
    "ed_status (entry_data ex_entry_old) = None"
    "env_first_refresh ex_env = Inr ex_status"
    by (simp_all add: ex_entry_old_def ex_entry_def ex_env_def)
  show ?thesis
    using setup_prepopulates [OF a(1-5), of ex_status ex_hass]
          setup_prepopulates [OF b(1-4) a(5), of ex_status ex_hass] a(6) b(5,6)
    by simp
qed




text \<open>
  C6. Unloading an entry that is set up calls the coordinator's shutdown exactly once
  (after the nine platform unloads, the only other events), removes the entry's
  \<open>ConfigEntryData\<close> from the registry and leaves the other entries there, unregisters the
  seven services when the entry was the last one and leaves the service registry as it
  is otherwise, and returns \<open>True\<close>.
\<close>

theorem unload_entry_correct:
  assumes "stored_data h (entry_id entry) = Some ced"
  shows "fst (async_unload_entry D h entry) = Inr True
    \<and> hass_trace (snd (async_unload_entry D h entry)) =
        hass_trace h @ map (EvForwardUnload (entry_id entry)) PLATFORMS @ [EvShutdown (entry_id entry)]
    \<and> stored_data (snd (async_unload_entry D h entry)) (entry_id entry) = None
    \<and> (\<forall>e. e \<noteq> entry_id entry \<longrightarrow>
          stored_data (snd (async_unload_entry D h entry)) e = stored_data h e)
    \<and> ((\<forall>e. stored_data h e \<noteq> None \<longrightarrow> e = entry_id entry) \<longrightarrow>
          hass_services (snd (async_unload_entry D h entry)) = async_unload_services D (hass_services h)
          \<and> (\<forall>n \<in> set service_names.
                \<not> has_service (hass_services (snd (async_unload_entry D h entry))) D n))
    \<and> (\<not> (\<forall>e. stored_data h e \<noteq> None \<longrightarrow> e = entry_id entry) \<longrightarrow>
          hass_services (snd (async_unload_entry D h entry)) = hass_services h)"
proof -
  let ?id = "entry_id entry"
  let ?last = "\<forall>e. stored_data h e \<noteq> None \<longrightarrow> e = ?id"
  obtain d where d: "hass_data h = Some d" and m: "map_of d ?id = Some ced"
    using assms by (auto simp: stored_data_def split: option.splits)
  have sd: "\<And>e. stored_data h e = map_of d e" by (simp add: stored_data_def d)
  have last: "(AList.delete ?id d = []) = ?last"
    unfolding sd by (rule delete_eq_Nil_iff)
  let ?h2 = "shutdown ?id (forward_unloads ?id PLATFORMS h)"
  have tr: "hass_trace ?h2 = hass_trace h @ map (EvForwardUnload ?id) PLATFORMS @ [EvShutdown ?id]"
    by (simp add: shutdown_def log_event_def hass_trace_forward_unloads)
  have sv: "hass_services ?h2 = hass_services h"
    by (simp add: shutdown_def log_event_def hass_services_forward_unloads)
  show ?thesis
  proof (cases "AList.delete ?id d = []")
    case True
    have r: "async_unload_entry D h entry =
       (Inr True, ?h2\<lparr>hass_data := Some [], hass_services := async_unload_services D (hass_services h)\<rparr>)"
      using d m True
      by (simp add: async_unload_entry_def Let_def hass_data_forward_unloads shutdown_def
            log_event_def hass_services_forward_unloads)
    have others: "\<And>e. e \<noteq> ?id \<Longrightarrow> map_of d e = None"
      using True delete_eq_Nil_iff [of ?id d] by blast
    have l: ?last using True last by simp
    have c1: "fst (async_unload_entry D h entry) = Inr True" by (simp add: r)
    have c2: "hass_trace (snd (async_unload_entry D h entry)) =
        hass_trace h @ map (EvForwardUnload ?id) PLATFORMS @ [EvShutdown ?id]"
      using tr by (simp add: r)
    have c3: "stored_data (snd (async_unload_entry D h entry)) ?id = None"
      by (simp add: r stored_data_def)
    have c4: "\<forall>e. e \<noteq> ?id \<longrightarrow> stored_data (snd (async_unload_entry D h entry)) e = stored_data h e"
      using others by (simp add: r stored_data_def d)
    have c5: "hass_services (snd (async_unload_entry D h entry)) = async_unload_services D (hass_services h)"
      by (simp add: r)
    have c6: "\<forall>n \<in> set service_names.
                \<not> has_service (hass_services (snd (async_unload_entry D h entry))) D n"
      unfolding c5 async_unload_services_def by (simp add: remove_services_removed)
    show ?thesis using c1 c2 c3 c4 c5 c6 l by blast
  next
    case False
    have r: "async_unload_entry D h entry =
       (Inr True, ?h2\<lparr>hass_data := Some (AList.delete ?id d)\<rparr>)"
      using d m False
      by (simp add: async_unload_entry_def Let_def hass_data_forward_unloads shutdown_def
            log_event_def)
    have l: "\<not> ?last" using False last by simp
    have c1: "fst (async_unload_entry D h entry) = Inr True" by (simp add: r)
    have c2: "hass_trace (snd (async_unload_entry D h entry)) =
        hass_trace h @ map (EvForwardUnload ?id) PLATFORMS @ [EvShutdown ?id]"
      using tr by (simp add: r)
    have c3: "stored_data (snd (async_unload_entry D h entry)) ?id = None"
      by (simp add: r stored_data_def delete_conv')
    have c4: "\<forall>e. e \<noteq> ?id \<longrightarrow> stored_data (snd (async_unload_entry D h entry)) e = stored_data h e"
      by (simp add: r stored_data_def d delete_conv')
    have c5: "hass_services (snd (async_unload_entry D h entry)) = hass_services h"
      using sv by (simp add: r)
    show ?thesis using c1 c2 c3 c4 c5 l by blast
  qed
qed

theorem unload_entry_correct_witness:
  "stored_data ex_hass_loaded (entry_id ex_entry) = Some ex_config_entry_data
   \<and> fst (async_unload_entry ''philips_airpurifier'' ex_hass_loaded ex_entry) = Inr True
   \<and> stored_data (snd (async_unload_entry ''philips_airpurifier'' ex_hass_loaded ex_entry))
        (entry_id ex_entry) = None
   \<and> hass_trace (snd (async_unload_entry ''philips_airpurifier'' ex_hass_loaded ex_entry)) =
        hass_trace ex_hass_loaded @ map (EvForwardUnload (entry_id ex_entry)) PLATFORMS
          @ [EvShutdown (entry_id ex_entry)]
   \<and> hass_services (snd (async_unload_entry ''philips_airpurifier'' ex_hass_loaded ex_entry)) =
        [((''light'', ''turn_on''), Handler ''turn_on'' 0)]"
proof -
  have a: "stored_data ex_hass_loaded (entry_id ex_entry) = Some ex_config_entry_data"
    by (simp add: stored_data_def ex_hass_loaded_def ex_hass_def ex_entry_def)
  have l: "\<forall>e. stored_data ex_hass_loaded e \<noteq> None \<longrightarrow> e = entry_id ex_entry"
    by (simp add: stored_data_def ex_hass_loaded_def ex_hass_def ex_entry_def)
  have u: "async_unload_services ''philips_airpurifier'' (hass_services ex_hass_loaded) =
             [((''light'', ''turn_on''), Handler ''turn_on'' 0)]"
    by (simp add: async_unload_services_def service_names_def SERVICE_FILTER_RESET_def
          SERVICE_CALIBRATE_SENSORS_def SERVICE_SET_DISPLAY_BRIGHTNESS_def
          SERVICE_SCHEDULE_MAINTENANCE_def SERVICE_SET_CHILD_LOCK_def SERVICE_SET_TIMER_def
          SERVICE_RESET_DEVICE_def has_service_def has_key_def async_remove_def
          ex_hass_loaded_def ex_hass_def delete_simps)
  show ?thesis
    using unload_entry_correct [OF a, of "''philips_airpurifier''"] a l u
    by simp
qed

section \<open>Properties of the control write\<close>

text \<open>
  C1, as stated, fails. The claim says that the cached entry is set to the option's device
  value before the network write and stays set when the write fails. With the option
  \<open>on\<close> of the backlight select and a client whose write fails, the write is sent, the
  error leaves the function, and the cached value is still the old one; with a client
  whose write succeeds, the assignment to the cache comes after the write.
\<close>

theorem select_option_not_optimistic_counterexample:
  "next_option_key (sel_options ex_select) ''on'' = Some (SStr ''1'')
   \<and> async_select_option ex_write_fails ex_select (Some ''on'') ex_select_state =
       (Some (OtherError ''device unreachable''),
        \<lparr>device_status = [(''uil'', SStr ''0'')], sel_trace = [NetWrite ''uil'' (SStr ''1'')]\<rparr>)
   \<and> async_select_option ex_write_ok ex_select (Some ''on'') ex_select_state =
       (None,
        \<lparr>device_status = [(''uil'', SStr ''1'')],
         sel_trace = [NetWrite ''uil'' (SStr ''1''), CacheSet ''uil'' (SStr ''1''), HandleUpdate]\<rparr>)"
  by (simp add: async_select_option_def ex_select_def ex_select_state_def ex_write_fails_def
        ex_write_ok_def Let_def)

text \<open>
  C1, amended. For a control write through \<open>async_select_option\<close> with an option string
  that is one of the select's options: the network write is issued first. When it
  succeeds, the cached entry of the written key is then set to the option's device value
  and the entity is updated. When it fails, the cache is left as it was; a \<open>KeyError\<close> or
  \<open>ValueError\<close> is logged and any other error is passed to the caller.
\<close>

theorem select_option_write_then_cache:
  assumes "opt \<noteq> []" "next_option_key (sel_options self) opt = Some key"
  shows "(wr (sel_kind self) key = None \<longrightarrow>
            async_select_option wr self (Some opt) st =
              (None,
               \<lparr>device_status = AList.update (sel_kind self) key (device_status st),
                sel_trace = sel_trace st @
                  [NetWrite (sel_kind self) key, CacheSet (sel_kind self) key, HandleUpdate]\<rparr>))
       \<and> (wr (sel_kind self) key = Some ex \<longrightarrow>
            async_select_option wr self (Some opt) st =
              (if ex = KeyError \<or> ex = ValueError then None else Some ex,
               \<lparr>device_status = device_status st,
                sel_trace = sel_trace st @ [NetWrite (sel_kind self) key]\<rparr>))"
  using assms
  by (cases ex) (auto simp: async_select_option_def Let_def split: option.splits exn.splits)

theorem select_option_write_then_cache_witness:
  "async_select_option ex_write_ok ex_select (Some ''on'') ex_select_state =
     (None,
      \<lparr>device_status = AList.update ''uil'' (SStr ''1'') (device_status ex_select_state),
       sel_trace = sel_trace ex_select_state @
         [NetWrite ''uil'' (SStr ''1''), CacheSet ''uil'' (SStr ''1''), HandleUpdate]\<rparr>)
   \<and> async_select_option ex_write_fails ex_select (Some ''on'') ex_select_state =
     (Some (OtherError ''device unreachable''),
      \<lparr>device_status = device_status ex_select_state,
       sel_trace = sel_trace ex_select_state @ [NetWrite ''uil'' (SStr ''1'')]\<rparr>)"
proof -
  have a: "''on'' \<noteq> []" "next_option_key (sel_options ex_select) ''on'' = Some (SStr ''1'')"
    by (simp_all add: ex_select_def)
  have k: "sel_kind ex_select = ''uil''" by (simp add: ex_select_def)
  have w: "ex_write_ok ''uil'' (SStr ''1'') = None"
    "ex_write_fails ''uil'' (SStr ''1'') = Some (OtherError ''device unreachable'')"
    by (simp_all add: ex_write_ok_def ex_write_fails_def)
  show ?thesis
    using select_option_write_then_cache
            [OF a, where wr = ex_write_ok and st = ex_select_state]
          select_option_write_then_cache
            [OF a, where wr = ex_write_fails and st = ex_select_state
               and ex = "OtherError ''device unreachable''"]
          k w
    by simp
qed

section \<open>Properties of the filter sensor\<close>




section \<open>Properties of the diagnostics\<close>


lemma snd_diagnostics: "snd (async_get_config_entry_diagnostics env h entry) = h"
  by (simp add: async_get_config_entry_diagnostics_def Let_def split: option.splits sum.splits)










text \<open>
  C7. Collecting the diagnostics is read-only: \<open>async_get_config_entry_diagnostics\<close>
  leaves the \<open>hass\<close> object, and with it the coordinators, their status caches and the
  stored \<open>ConfigEntryData\<close>, as it was; and what its helpers report of a coordinator is
  determined by the introspection (client present, timeout, number of listeners, the two
  tasks, the timer): two coordinators that agree there give the same reports.
\<close>

theorem diagnostics_read_only:
  "snd (async_get_config_entry_diagnostics env h entry) = h
   \<and> (introspection co' = introspection (ced_coordinator ced) \<longrightarrow>
        get_integration_info env (ced\<lparr>ced_coordinator := co'\<rparr>) = get_integration_info env ced
      \<and> get_device_info (ced\<lparr>ced_coordinator := co'\<rparr>) dev = get_device_info ced dev
      \<and> get_connectivity_info (ced\<lparr>ced_coordinator := co'\<rparr>) = get_connectivity_info ced
      \<and> get_performance_metrics (ced\<lparr>ced_coordinator := co'\<rparr>) = get_performance_metrics ced
      \<and> get_error_tracking (ced\<lparr>ced_coordinator := co'\<rparr>) = get_error_tracking ced
      \<and> get_device_status (ced\<lparr>ced_coordinator := co'\<rparr>) = get_device_status ced)"
proof (intro conjI impI)
  show "snd (async_get_config_entry_diagnostics env h entry) = h" by (rule snd_diagnostics)
next
  assume i: "introspection co' = introspection (ced_coordinator ced)"
  then have e: "(co_client co' \<noteq> None) = (co_client (ced_coordinator ced) \<noteq> None)"
    "co_timeout co' = co_timeout (ced_coordinator ced)"
    "length (co_listeners co') = length (co_listeners (ced_coordinator ced))"
    "co_task co' = co_task (ced_coordinator ced)"
    "co_reconnect_task co' = co_reconnect_task (ced_coordinator ced)"
    "co_timer_disconnected co' = co_timer_disconnected (ced_coordinator ced)"
    by (simp_all add: introspection_def)
  have c: "(case co_client co' of None \<Rightarrow> VNone | Some c \<Rightarrow> VStr ''CoAPClient'')
         = (case co_client (ced_coordinator ced) of None \<Rightarrow> VNone | Some c \<Rightarrow> VStr ''CoAPClient'')"
    using e(1) by (auto split: option.splits)
  have l: "(0 < length (co_listeners co')) = (0 < length (co_listeners (ced_coordinator ced)))"
    using e(3) by simp
  show "get_integration_info env (ced\<lparr>ced_coordinator := co'\<rparr>) = get_integration_info env ced"
    using e(1,2,4) c l by (simp add: get_integration_info_def Let_def del: not_None_eq length_greater_0_conv)
  show "get_device_info (ced\<lparr>ced_coordinator := co'\<rparr>) dev = get_device_info ced dev"
    by (simp add: get_device_info_def)
  show "get_connectivity_info (ced\<lparr>ced_coordinator := co'\<rparr>) = get_connectivity_info ced"
    using e(1) by (simp add: get_connectivity_info_def Let_def del: not_None_eq)
  show "get_performance_metrics (ced\<lparr>ced_coordinator := co'\<rparr>) = get_performance_metrics ced"
    using e by (simp add: get_performance_metrics_def Let_def del: not_None_eq)
  show "get_error_tracking (ced\<lparr>ced_coordinator := co'\<rparr>) = get_error_tracking ced"
    by (simp add: get_error_tracking_def)
  show "get_device_status (ced\<lparr>ced_coordinator := co'\<rparr>) = get_device_status ced"
    by (simp add: get_device_status_def)
qed



theorem diagnostics_read_only_witness:
  "introspection ((ced_coordinator ex_config_entry_data)\<lparr>co_host := ''elsewhere'', co_status := None\<rparr>)
     = introspection (ced_coordinator ex_config_entry_data)
   \<and> snd (async_get_config_entry_diagnostics ex_diag_env ex_hass_loaded ex_entry) = ex_hass_loaded
   \<and> get_integration_info ex_diag_env
        (ex_config_entry_data\<lparr>ced_coordinator :=
           (ced_coordinator ex_config_entry_data)\<lparr>co_host := ''elsewhere'', co_status := None\<rparr>\<rparr>)
       = get_integration_info ex_diag_env ex_config_entry_data
   \<and> get_performance_metrics
        (ex_config_entry_data\<lparr>ced_coordinator :=
           (ced_coordinator ex_config_entry_data)\<lparr>co_host := ''elsewhere'', co_status := None\<rparr>\<rparr>)
       = get_performance_metrics ex_config_entry_data"
proof -
  have i: "introspection ((ced_coordinator ex_config_entry_data)\<lparr>co_host := ''elsewhere'', co_status := None\<rparr>)
     = introspection (ced_coordinator ex_config_entry_data)"
    by (simp add: introspection_def)
  show ?thesis
    using diagnostics_read_only
            [where env = ex_diag_env and h = ex_hass_loaded and entry = ex_entry
               and ced = ex_config_entry_data
               and co' = "(ced_coordinator ex_config_entry_data)\<lparr>co_host := ''elsewhere'', co_status := None\<rparr>"]
          i
    by simp
qed

end
